theory Spec2Isabelle
  imports Main "HOL-Library.Char_ord" "HOL-Library.List_Lexorder"
begin

section \<open>Go strings and the standard-library string functions used by the gateway\<close>

text \<open>
  A Go \<open>string\<close> is a sequence of bytes; it is modelled as \<open>string\<close> (a list of 8-bit
  characters). Indices and lengths are Go \<open>int\<close>s, modelled as \<open>int\<close>: every index
  computed below lies between \<open>-1\<close> and the length of a string, so no 64-bit
  arithmetic wraps.

  \<open>strings.ToLower\<close> and \<open>strings.TrimSpace\<close> have a fast path for strings whose bytes are
  all below \<open>utf8.RuneSelf\<close> (\<open>0x80\<close>) and a Unicode path driven by the tables of package
  \<open>unicode\<close>. Only the ASCII path is modelled; \<open>isASCII\<close> marks the strings on which
  the model is the library function. A \<open>Host\<close> value accepted by \<open>net/http\<close> consists of
  ASCII bytes only.
\<close>

definition RuneSelf :: nat where
  "RuneSelf = 128"

definition isASCII :: "string \<Rightarrow> bool" where
  "isASCII s = list_all (\<lambda>c. (of_char c :: nat) < RuneSelf) s"

definition len :: "string \<Rightarrow> int" where
  "len s = int (length s)"

text \<open>\<open>'A' <= c && c <= 'Z'\<close>\<close>

definition isUpperByte :: "char \<Rightarrow> bool" where
  "isUpperByte c = (of_char (CHR ''A'') \<le> (of_char c :: nat) \<and> (of_char c :: nat) \<le> of_char (CHR ''Z''))"

text \<open>\<open>c += 'a' - 'A'\<close> for an upper-case byte, any other byte is copied.\<close>

definition toLowerByte :: "char \<Rightarrow> char" where
  "toLowerByte c =
     (if isUpperByte c
      then char_of ((of_char c :: nat) + (of_char (CHR ''a'') - of_char (CHR ''A'')))
      else c)"

definition ToLower :: "string \<Rightarrow> string" where
  "ToLower s = map toLowerByte s"

text \<open>
  The table \<open>asciiSpace\<close> of package \<open>strings\<close>: tab, line feed, vertical tab, form feed,
  carriage return and space.
\<close>

definition asciiSpace :: "char \<Rightarrow> bool" where
  "asciiSpace c = ((of_char c :: nat) \<in> {9, 10, 11, 12, 13, 32})"

text \<open>
  \<open>strings.TrimSpace\<close>: \<open>start\<close> moves right over the leading space bytes, then \<open>stop\<close>
  moves left over the trailing ones, and the result is \<open>s[start:stop]\<close>.
\<close>

definition TrimSpace :: "string \<Rightarrow> string" where
  "TrimSpace s = rev (dropWhile asciiSpace (rev (dropWhile asciiSpace s)))"

text \<open>
  \<open>strings.Trim(s, cutset)\<close> for a cutset of ASCII bytes:
  \<open>trimLeftASCII(trimRightASCII(s, &as), &as)\<close>. Each of the two loops removes bytes
  for as long as the byte at that end belongs to the cutset.
\<close>

definition trimRightASCII :: "string \<Rightarrow> string \<Rightarrow> string" where
  "trimRightASCII s cutset = rev (dropWhile (\<lambda>c. c \<in> set cutset) (rev s))"

definition trimLeftASCII :: "string \<Rightarrow> string \<Rightarrow> string" where
  "trimLeftASCII s cutset = dropWhile (\<lambda>c. c \<in> set cutset) s"

definition Trim :: "string \<Rightarrow> string \<Rightarrow> string" where
  "Trim s cutset =
     (if s = [] \<or> cutset = [] then s
      else trimLeftASCII (trimRightASCII s cutset) cutset)"

text \<open>
  \<open>bytealg.IndexByteString\<close> and \<open>bytealg.LastIndexByteString\<close>: the index of the first
  (last) occurrence of the byte, \<open>-1\<close> when there is none.
\<close>

fun IndexByteString :: "string \<Rightarrow> char \<Rightarrow> int" where
  "IndexByteString [] c = -1"
| "IndexByteString (x # xs) c =
     (if x = c then 0
      else (let r = IndexByteString xs c in if r < 0 then -1 else r + 1))"

fun LastIndexByteString :: "string \<Rightarrow> char \<Rightarrow> int" where
  "LastIndexByteString [] c = -1"
| "LastIndexByteString (x # xs) c =
     (let r = LastIndexByteString xs c in
      if 0 \<le> r then r + 1 else if x = c then 0 else -1)"

section \<open>Errors, index expressions and slice expressions\<close>

text \<open>
  \<open>AddrError why addr\<close> is the \<open>*net.AddrError\<close> returned by \<open>net.SplitHostPort\<close>.
  \<open>IndexOutOfRange\<close> and \<open>SliceOutOfRange\<close> are the run-time panics of an index
  expression \<open>s[i]\<close> and of a slice expression \<open>s[lo:hi]\<close>.
\<close>

datatype error = AddrError string string | IndexOutOfRange | SliceOutOfRange

definition bind :: "error + 'a \<Rightarrow> ('a \<Rightarrow> error + 'b) \<Rightarrow> error + 'b" where
  "bind m f = (case m of Inl e \<Rightarrow> Inl e | Inr x \<Rightarrow> f x)"

definition index :: "string \<Rightarrow> int \<Rightarrow> error + char" where
  "index s i = (if 0 \<le> i \<and> i < len s then Inr (s ! nat i) else Inl IndexOutOfRange)"

definition slice :: "string \<Rightarrow> int \<Rightarrow> int \<Rightarrow> error + string" where
  "slice s lo hi =
     (if 0 \<le> lo \<and> lo \<le> hi \<and> hi \<le> len s
      then Inr (take (nat (hi - lo)) (drop (nat lo) s))
      else Inl SliceOutOfRange)"

section \<open>\<open>net.SplitHostPort\<close>\<close>

definition missingPort :: string where
  "missingPort = ''missing port in address''"

definition tooManyColons :: string where
  "tooManyColons = ''too many colons in address''"

definition addrErr :: "string \<Rightarrow> string \<Rightarrow> error + 'a" where
  "addrErr addr why = Inl (AddrError why addr)"

text \<open>
  The first stage of \<open>SplitHostPort\<close>, after the last colon \<open>i\<close> has been found: it yields
  the host and the offsets \<open>j\<close>, \<open>k\<close> from which a stray \<open>[\<close> resp. \<open>]\<close> is searched.
\<close>

definition splitHost :: "string \<Rightarrow> int \<Rightarrow> error + (string \<times> int \<times> int)" where
  "splitHost hostport i =
     bind (index hostport 0) (\<lambda>c0.
       if c0 = CHR ''[''
       then (let end' = IndexByteString hostport (CHR '']'') in
             if end' < 0 then addrErr hostport ''missing ']' in address''
             else if end' + 1 = len hostport then addrErr hostport missingPort
             else if end' + 1 = i
               then bind (slice hostport 1 end') (\<lambda>host. Inr (host, 1, end' + 1))
             else bind (index hostport (end' + 1)) (\<lambda>c.
               if c = CHR '':'' then addrErr hostport tooManyColons
               else addrErr hostport missingPort))
       else bind (slice hostport 0 i) (\<lambda>host.
              if 0 \<le> IndexByteString host (CHR '':'') then addrErr hostport tooManyColons
              else Inr (host, 0, 0)))"

definition SplitHostPort :: "string \<Rightarrow> error + (string \<times> string)" where
  "SplitHostPort hostport =
     (let i = LastIndexByteString hostport (CHR '':'') in
      if i < 0 then addrErr hostport missingPort
      else bind (splitHost hostport i) (\<lambda>(host, j, k).
        bind (slice hostport j (len hostport)) (\<lambda>fromJ.
          if 0 \<le> IndexByteString fromJ (CHR ''['')
          then addrErr hostport ''unexpected '[' in address''
          else bind (slice hostport k (len hostport)) (\<lambda>fromK.
            if 0 \<le> IndexByteString fromK (CHR '']'')
            then addrErr hostport ''unexpected ']' in address''
            else bind (slice hostport (i + 1) (len hostport)) (\<lambda>port.
              Inr (host, port))))))"

section \<open>The host canonicalizer\<close>

text \<open>
  \<open>canonicalHost\<close> of \<open>cmd/api/main.go\<close>. An \<open>AddrError\<close> of \<open>SplitHostPort\<close> is the
  \<open>err != nil\<close> case and leads to the fallback; a panic would propagate to the caller.
\<close>

definition canonicalHost :: "string \<Rightarrow> error + string" where
  "canonicalHost h0 =
     (let h = TrimSpace (ToLower h0) in
      if h = [] then Inr []
      else (case SplitHostPort h of
              Inr (host, port) \<Rightarrow> Inr (Trim host ''[]'')
            | Inl (AddrError why addr) \<Rightarrow> Inr (Trim h ''[]'')
            | Inl IndexOutOfRange \<Rightarrow> Inl IndexOutOfRange
            | Inl SliceOutOfRange \<Rightarrow> Inl SliceOutOfRange))"

text \<open>
  The string handed to \<open>strings.Trim\<close> by \<open>canonicalHost\<close>: the host returned by
  \<open>SplitHostPort\<close> in the first branch, the whole string in the fallback branch.
\<close>

definition hostPart :: "string \<Rightarrow> string" where
  "hostPart h = (case SplitHostPort h of Inr (host, port) \<Rightarrow> host | Inl e \<Rightarrow> h)"

text \<open>Applying the canonicalizer to its own result.\<close>

definition canonicalHostTwice :: "string \<Rightarrow> error + string" where
  "canonicalHostTwice x = bind (canonicalHost x) canonicalHost"

subsection \<open>The bracket rule as the specification words it\<close>

text \<open>
  The specification's rule, kept apart from the code for comparison: strip a single
  pair of surrounding \<open>[\<close> and \<open>]\<close> from the host if that pair is present, and nothing
  else.
\<close>

definition stripBracketPair_spec :: "string \<Rightarrow> string" where
  "stripBracketPair_spec s =
     (if 2 \<le> length s \<and> hd s = CHR ''['' \<and> last s = CHR '']'' then butlast (tl s) else s)"

definition canonicalize_spec :: "string \<Rightarrow> string" where
  "canonicalize_spec x =
     (let h = TrimSpace (ToLower x) in
      if h = [] then [] else stripBracketPair_spec (hostPart h))"

section \<open>HTTP: requests, the response writer and the helpers of \<open>net/http\<close>\<close>

text \<open>
  A request as the handlers and the multiplexer read it: \<open>r.Method\<close>, the escaped URL
  path of an origin-form request target, and \<open>r.Host\<close>.
\<close>

record Request =
  Method :: string
  EscapedPath :: string
  RequestHost :: string

text \<open>The response types of the gateway, with the field names of their JSON tags.\<close>

record healthResponse =
  Status :: string
  Time :: string

record hostResponse =
  Host :: string
  Route :: string

datatype json = JString string | JObject "(string \<times> json) list"

definition healthResponse_json :: "healthResponse \<Rightarrow> json" where
  "healthResponse_json v = JObject [(''status'', JString (Status v)), (''time'', JString (Time v))]"

definition hostResponse_json :: "hostResponse \<Rightarrow> json" where
  "hostResponse_json v = JObject [(''host'', JString (Host v)), (''route'', JString (Route v))]"

text \<open>
  What a handler wrote to the response body: \<open>JSONLine v\<close> is the output of
  \<open>json.Encoder.Encode\<close> (the JSON text of \<open>v\<close> and a newline), \<open>Bytes s\<close> is raw text.
  \<open>status\<close> is \<open>None\<close> until \<open>WriteHeader\<close> has been called.
\<close>

datatype chunk = JSONLine json | Bytes string

record ResponseWriter =
  header :: "(string \<times> string) list"
  status :: "nat option"
  body :: "chunk list"

definition newResponseWriter :: ResponseWriter where
  "newResponseWriter = \<lparr>header = [], status = None, body = []\<rparr>"

definition StatusOK :: nat where "StatusOK = 200"
definition StatusMovedPermanently :: nat where "StatusMovedPermanently = 301"
definition StatusNotFound :: nat where "StatusNotFound = 404"
definition StatusMethodNotAllowed :: nat where "StatusMethodNotAllowed = 405"

text \<open>
  \<open>w.Header().Set\<close> and \<open>w.Header().Del\<close>: the headers sent are those present when the
  status line is written, so a change after \<open>WriteHeader\<close> has no effect.
\<close>

definition Header_Del :: "string \<Rightarrow> ResponseWriter \<Rightarrow> ResponseWriter" where
  "Header_Del k w =
     (if status w = None then w\<lparr>header := filter (\<lambda>kv. fst kv \<noteq> k) (header w)\<rparr> else w)"

definition Header_Set :: "string \<Rightarrow> string \<Rightarrow> ResponseWriter \<Rightarrow> ResponseWriter" where
  "Header_Set k v w =
     (if status w = None
      then w\<lparr>header := filter (\<lambda>kv. fst kv \<noteq> k) (header w) @ [(k, v)]\<rparr>
      else w)"

definition WriteHeader :: "nat \<Rightarrow> ResponseWriter \<Rightarrow> ResponseWriter" where
  "WriteHeader code w = (if status w = None then w\<lparr>status := Some code\<rparr> else w)"

definition Write :: "chunk \<Rightarrow> ResponseWriter \<Rightarrow> ResponseWriter" where
  "Write c w = (let w' = WriteHeader StatusOK w in w'\<lparr>body := body w' @ [c]\<rparr>)"

text \<open>
  When a handler returns, the server writes the status line if the handler did not. The
  body of the response to a \<open>HEAD\<close> request is discarded.
\<close>

definition finishRequest :: "Request \<Rightarrow> ResponseWriter \<Rightarrow> ResponseWriter" where
  "finishRequest r w =
     (let w' = WriteHeader StatusOK w in if Method r = ''HEAD'' then w'\<lparr>body := []\<rparr> else w')"

text \<open>\<open>http.Error\<close> and \<open>http.NotFound\<close>.\<close>

definition http_Error :: "ResponseWriter \<Rightarrow> string \<Rightarrow> nat \<Rightarrow> ResponseWriter" where
  "http_Error w msg code =
     Write (Bytes (msg @ [CHR 0x0A]))
       (WriteHeader code
         (Header_Set ''X-Content-Type-Options'' ''nosniff''
           (Header_Set ''Content-Type'' ''text/plain; charset=utf-8''
             (Header_Del ''Content-Length'' w))))"

definition http_NotFound :: "ResponseWriter \<Rightarrow> Request \<Rightarrow> ResponseWriter" where
  "http_NotFound w r = http_Error w ''404 page not found'' StatusNotFound"

section \<open>\<open>http.ServeMux\<close>: patterns of the form \<open>[METHOD ]/path\<close>\<close>

text \<open>
  A pattern string is an optional method, a space, and a path. Only the pattern forms
  the two programs register are modelled: no host, no wildcard segment. A path ending
  in \<open>/\<close> matches every path it is a prefix of, any other path matches itself only.
  A pattern with method \<open>GET\<close> also matches \<open>HEAD\<close> requests.
\<close>

definition patMethod :: "string \<Rightarrow> string" where
  "patMethod pat = (if CHR '' '' \<in> set pat then takeWhile (\<lambda>c. c \<noteq> CHR '' '') pat else [])"

definition patPath :: "string \<Rightarrow> string" where
  "patPath pat =
     (if CHR '' '' \<in> set pat
      then dropWhile (\<lambda>c. c = CHR '' '') (dropWhile (\<lambda>c. c \<noteq> CHR '' '') pat)
      else pat)"

definition methodMatches :: "string \<Rightarrow> string \<Rightarrow> bool" where
  "methodMatches pat m =
     (patMethod pat = [] \<or> patMethod pat = m \<or> (patMethod pat = ''GET'' \<and> m = ''HEAD''))"

definition isSubtree :: "string \<Rightarrow> bool" where
  "isSubtree p = (p \<noteq> [] \<and> last p = CHR ''/'')"

definition pathMatches :: "string \<Rightarrow> string \<Rightarrow> bool" where
  "pathMatches pat p =
     (if isSubtree (patPath pat) then take (length (patPath pat)) p = patPath pat
      else p = patPath pat)"

text \<open>
  Of the patterns that match, the most specific wins; for the modelled pattern forms
  that is the one with the longest path.
\<close>

fun mostSpecific :: "(string \<times> 'h) \<Rightarrow> (string \<times> 'h) list \<Rightarrow> (string \<times> 'h)" where
  "mostSpecific best [] = best"
| "mostSpecific best (e # es) =
     mostSpecific (if length (patPath (fst best)) < length (patPath (fst e)) then e else best) es"

definition match :: "(string \<times> 'h) list \<Rightarrow> string \<Rightarrow> string \<Rightarrow> (string \<times> 'h) option" where
  "match regs m p =
     (case filter (\<lambda>e. methodMatches (fst e) m \<and> pathMatches (fst e) p) regs of
        [] \<Rightarrow> None
      | e # es \<Rightarrow> Some (mostSpecific e es))"

text \<open>
  \<open>exactMatch\<close>: a subtree pattern matches a path exactly only when the path ends in
  \<open>/\<close> and has as many slashes as the pattern has segments.
\<close>

definition exactMatch :: "(string \<times> 'h) option \<Rightarrow> string \<Rightarrow> bool" where
  "exactMatch n p =
     (case n of
        None \<Rightarrow> False
      | Some e \<Rightarrow>
          if \<not> isSubtree (patPath (fst e)) then True
          else if p \<noteq> [] \<and> last p \<noteq> CHR ''/'' then False
          else count_list (patPath (fst e)) (CHR ''/'') = count_list p (CHR ''/''))"

text \<open>
  \<open>ServeMux.matchingMethods\<close>, for the \<open>Allow\<close> header of a \<open>405\<close> response: the methods
  of the patterns that match the path, or the path with a slash appended, with \<open>HEAD\<close>
  added to \<open>GET\<close>, sorted and without duplicates.
\<close>

definition matchingMethods :: "(string \<times> 'h) list \<Rightarrow> string \<Rightarrow> string list" where
  "matchingMethods regs p =
     (let hit = (\<lambda>e. pathMatches (fst e) p \<or> (\<not> isSubtree p \<and> pathMatches (fst e) (p @ ''/'')));
          ms = map (\<lambda>e. patMethod (fst e)) (filter hit regs)
      in sort (remdups (ms @ (if ''GET'' \<in> set ms then [''HEAD''] else []))))"

text \<open>
  A path is left unchanged by the multiplexer's \<open>cleanPath\<close> when it starts with \<open>/\<close>,
  has no empty segment before its end, and no segment \<open>.\<close> or \<open>..\<close>.
\<close>

fun splitSlash :: "string \<Rightarrow> string list" where
  "splitSlash [] = [[]]"
| "splitSlash (c # cs) =
     (if c = CHR ''/'' then [] # splitSlash cs
      else (case splitSlash cs of [] \<Rightarrow> [[c]] | s # ss \<Rightarrow> (c # s) # ss))"

definition isCleanPath :: "string \<Rightarrow> bool" where
  "isCleanPath p =
     (p \<noteq> [] \<and> hd p = CHR ''/'' \<and>
      (let segs = splitSlash (tl p)
       in list_all (\<lambda>s. s \<noteq> ''.'' \<and> s \<noteq> ''..'') segs \<and> list_all (\<lambda>s. s \<noteq> []) (butlast segs)))"

text \<open>
  \<open>ServeMux.findHandler\<close>. A request other than \<open>CONNECT\<close> whose path is not clean, or
  whose path with a slash appended is matched exactly, is redirected; a request that no
  pattern matches is answered \<open>405\<close> when a pattern matches its path under another
  method, and \<open>404\<close> otherwise.
\<close>

datatype 'h decision =
    Serve string 'h
  | Redirect
  | MethodNotAllowed "string list"
  | NotFoundHandler

definition needsSlashRedirect :: "(string \<times> 'h) list \<Rightarrow> string \<Rightarrow> string \<Rightarrow> bool" where
  "needsSlashRedirect regs m p =
     (\<not> exactMatch (match regs m p) p \<and> \<not> isSubtree p \<and>
      exactMatch (match regs m (p @ ''/'')) (p @ ''/''))"

definition findHandler :: "(string \<times> 'h) list \<Rightarrow> Request \<Rightarrow> 'h decision" where
  "findHandler regs r =
     (let m = Method r; p = EscapedPath r in
      if needsSlashRedirect regs m p then Redirect
      else if m \<noteq> ''CONNECT'' \<and> \<not> isCleanPath p then Redirect
      else (case match regs m p of
              Some e \<Rightarrow> Serve (fst e) (snd e)
            | None \<Rightarrow>
                (let allowed = matchingMethods regs p in
                 if allowed \<noteq> [] then MethodNotAllowed allowed else NotFoundHandler)))"

text \<open>The value of the \<open>Allow\<close> header: \<open>strings.Join(allowedMethods, ", ")\<close>.\<close>

fun Join :: "string list \<Rightarrow> string \<Rightarrow> string" where
  "Join [] sep = []"
| "Join [x] sep = x"
| "Join (x # y # ys) sep = x @ sep @ Join (y # ys) sep"

text \<open>
  The outcome of one request: the response a handler produced, or the multiplexer's
  redirect (status \<open>301\<close>) to the cleaned path.
\<close>

datatype outcome = Response ResponseWriter | MovedPermanently

section \<open>The gateway: \<open>newHandler\<close> of \<open>cmd/api/main.go\<close>\<close>

definition hostRoutes :: "string \<rightharpoonup> string" where
  "hostRoutes = map_of [(''mango.com'', ''site-mango''), (''apple.com'', ''site-apple'')]"

text \<open>
  The handler of \<open>GET /health\<close>; \<open>now\<close> is \<open>time.Now().Format(time.RFC3339Nano)\<close>.
\<close>

definition healthHandler :: "string \<Rightarrow> ResponseWriter \<Rightarrow> Request \<Rightarrow> error + ResponseWriter" where
  "healthHandler now w r =
     Inr (Write (JSONLine (healthResponse_json \<lparr>Status = ''ok'', Time = now\<rparr>))
           (WriteHeader StatusOK
             (Header_Set ''Content-Type'' ''application/json'' w)))"

text \<open>The handler of \<open>GET /\<close>.\<close>

definition rootHandler :: "ResponseWriter \<Rightarrow> Request \<Rightarrow> error + ResponseWriter" where
  "rootHandler w r =
     bind (canonicalHost (RequestHost r)) (\<lambda>host.
       case hostRoutes host of
         None \<Rightarrow> Inr (http_NotFound w r)
       | Some route \<Rightarrow>
           Inr (Write (JSONLine (hostResponse_json \<lparr>Host = host, Route = route\<rparr>))
                 (WriteHeader StatusOK
                   (Header_Set ''Content-Type'' ''application/json'' w))))"

definition newHandler ::
  "string \<Rightarrow> (string \<times> (ResponseWriter \<Rightarrow> Request \<Rightarrow> error + ResponseWriter)) list" where
  "newHandler now = [(''GET /health'', healthHandler now), (''GET /'', rootHandler)]"

text \<open>\<open>ServeMux.ServeHTTP\<close> on the registrations of a program, for one request.\<close>

definition ServeHTTP ::
  "(string \<times> (ResponseWriter \<Rightarrow> Request \<Rightarrow> error + ResponseWriter)) list \<Rightarrow> Request
     \<Rightarrow> error + outcome" where
  "ServeHTTP regs r =
     (case findHandler regs r of
        Serve pat h \<Rightarrow> bind (h newResponseWriter r) (\<lambda>w. Inr (Response (finishRequest r w)))
      | Redirect \<Rightarrow> Inr MovedPermanently
      | MethodNotAllowed allowed \<Rightarrow>
          Inr (Response (finishRequest r
            (http_Error (Header_Set ''Allow'' (Join allowed '', '') newResponseWriter)
               ''Method Not Allowed'' StatusMethodNotAllowed)))
      | NotFoundHandler \<Rightarrow>
          Inr (Response (finishRequest r (http_NotFound newResponseWriter r))))"

section \<open>The identity echo service\<close>

text \<open>
  \<open>main\<close> of the echo program. The environment is a map from variable names to values;
  \<open>os.Getenv\<close> yields the empty string for a variable that is not set. The process has a
  standard output next to the response writer, and the handler's \<open>fmt.Printf\<close> writes to
  the standard output.
\<close>

definition Getenv :: "(string \<rightharpoonup> string) \<Rightarrow> string \<Rightarrow> string" where
  "Getenv env k = (case env k of None \<Rightarrow> [] | Some v \<Rightarrow> v)"

definition appName :: "(string \<rightharpoonup> string) \<Rightarrow> string" where
  "appName env = (let a = Getenv env ''APP'' in if a = [] then ''unknown'' else a)"

record echoState =
  stdout :: string
  writer :: ResponseWriter

definition echoHandler :: "string \<Rightarrow> echoState \<Rightarrow> Request \<Rightarrow> echoState" where
  "echoHandler name s r = s\<lparr>stdout := stdout s @ ''This is the '' @ name @ '' application''\<rparr>"

definition echoRoutes :: "(string \<rightharpoonup> string) \<Rightarrow> (string \<times> (echoState \<Rightarrow> Request \<Rightarrow> echoState)) list" where
  "echoRoutes env = [(''GET /'', echoHandler (appName env))]"

text \<open>
  One request to the echo service: the standard output afterwards and the outcome.
\<close>

definition echoServe :: "(string \<rightharpoonup> string) \<Rightarrow> string \<Rightarrow> Request \<Rightarrow> string \<times> outcome" where
  "echoServe env out r =
     (case findHandler (echoRoutes env) r of
        Serve pat h \<Rightarrow>
          (let s = h \<lparr>stdout = out, writer = newResponseWriter\<rparr> r
           in (stdout s, Response (finishRequest r (writer s))))
      | Redirect \<Rightarrow> (out, MovedPermanently)
      | MethodNotAllowed allowed \<Rightarrow>
          (out, Response (finishRequest r
            (http_Error (Header_Set ''Allow'' (Join allowed '', '') newResponseWriter)
               ''Method Not Allowed'' StatusMethodNotAllowed)))
      | NotFoundHandler \<Rightarrow>
          (out, Response (finishRequest r (http_NotFound newResponseWriter r))))"

section \<open>Properties of the string functions and of \<open>SplitHostPort\<close>\<close>

lemma IndexByteString_bounds: "-1 \<le> IndexByteString s c \<and> IndexByteString s c < len s"
  by (induction s) (auto simp: len_def Let_def)

lemma IndexByteString_neg_iff: "IndexByteString s c < 0 \<longleftrightarrow> c \<notin> set s"
  using IndexByteString_bounds [of _ c]
  by (induction s) (auto simp: Let_def)

lemma IndexByteString_zero: "IndexByteString s c = 0 \<Longrightarrow> s \<noteq> [] \<and> hd s = c"
  using IndexByteString_bounds [of _ c]
  by (cases s) (auto simp: Let_def split: if_splits)

lemma LastIndexByteString_bounds:
  "-1 \<le> LastIndexByteString s c \<and> LastIndexByteString s c < len s"
  by (induction s) (auto simp: len_def Let_def)

lemma LastIndexByteString_neg_iff: "LastIndexByteString s c < 0 \<longleftrightarrow> c \<notin> set s"
  using LastIndexByteString_bounds [of _ c]
  by (induction s) (auto simp: Let_def)

lemma slice_Inr:
  "0 \<le> lo \<Longrightarrow> lo \<le> hi \<Longrightarrow> hi \<le> len s \<Longrightarrow>
   slice s lo hi = Inr (take (nat (hi - lo)) (drop (nat lo) s))"
  by (simp add: slice_def)

lemma splitHost_cases:
  assumes "0 \<le> i" "i < len s"
  shows "(\<exists>why. splitHost s i = Inl (AddrError why s)) \<or>
         (\<exists>host j k. splitHost s i = Inr (host, j, k) \<and> 0 \<le> j \<and> j \<le> len s \<and> 0 \<le> k \<and> k \<le> len s
            \<and> length host < length s \<and> set host \<subseteq> set s)"
proof -
  from assms have ne: "s \<noteq> []" by (auto simp: len_def)
  have i0: "index s 0 = Inr (hd s)"
    using ne by (cases s) (auto simp: index_def len_def)
  show ?thesis
  proof (cases "hd s = CHR ''[''")
    case True
    let ?e = "IndexByteString s (CHR '']'')"
    have eb: "-1 \<le> ?e" "?e < len s" using IndexByteString_bounds [of s "CHR '']''"] by auto
    have e0: "?e \<noteq> 0" using IndexByteString_zero [of s "CHR '']''"] True by auto
    show ?thesis
      using eb e0 assms True i0
      by (auto simp: splitHost_def bind_def Let_def addrErr_def slice_def index_def len_def
          dest: in_set_takeD in_set_dropD)
  next
    case False
    then show ?thesis
      using assms i0
      by (auto simp: splitHost_def bind_def Let_def addrErr_def slice_def len_def
          dest: in_set_takeD)
  qed
qed

lemma SplitHostPort_cases:
  "(\<exists>why. SplitHostPort s = Inl (AddrError why s)) \<or>
   (\<exists>host port. SplitHostPort s = Inr (host, port) \<and> length host < length s \<and> set host \<subseteq> set s)"
proof (cases "LastIndexByteString s (CHR '':'') < 0")
  case True
  then show ?thesis by (simp add: SplitHostPort_def addrErr_def)
next
  case False
  let ?i = "LastIndexByteString s (CHR '':'')"
  have ib: "0 \<le> ?i" "?i < len s"
    using False LastIndexByteString_bounds [of s "CHR '':''"] by auto
  from splitHost_cases [OF ib] show ?thesis
  proof
    assume "\<exists>why. splitHost s ?i = Inl (AddrError why s)"
    then show ?thesis using False by (auto simp: SplitHostPort_def bind_def)
  next
    assume "\<exists>host j k. splitHost s ?i = Inr (host, j, k) \<and> 0 \<le> j \<and> j \<le> len s \<and> 0 \<le> k \<and> k \<le> len s
            \<and> length host < length s \<and> set host \<subseteq> set s"
    then obtain host j k where h: "splitHost s ?i = Inr (host, j, k)" "0 \<le> j" "j \<le> len s"
      "0 \<le> k" "k \<le> len s" "length host < length s" "set host \<subseteq> set s" by blast
    then show ?thesis using False ib
      by (auto simp: SplitHostPort_def bind_def slice_def addrErr_def)
  qed
qed

lemma toLowerByte_not_upper: "\<not> isUpperByte (toLowerByte c)"
  by (auto simp: toLowerByte_def isUpperByte_def)

lemma ToLower_no_upper: "c \<in> set (ToLower s) \<Longrightarrow> \<not> isUpperByte c"
  by (auto simp: ToLower_def toLowerByte_not_upper)

lemma ToLower_id: "\<forall>c\<in>set s. \<not> isUpperByte c \<Longrightarrow> ToLower s = s"
  by (induction s) (auto simp: ToLower_def toLowerByte_def)

lemma rdrop_decomp: "\<exists>suf. s = rev (dropWhile P (rev s)) @ suf \<and> (\<forall>c\<in>set suf. P c)"
proof -
  have "rev s = takeWhile P (rev s) @ dropWhile P (rev s)" by simp
  then have "s = rev (dropWhile P (rev s)) @ rev (takeWhile P (rev s))"
    by (metis rev_append rev_rev_ident)
  moreover have "\<forall>c\<in>set (rev (takeWhile P (rev s))). P c"
    by (auto dest: set_takeWhileD)
  ultimately show ?thesis by blast
qed

lemma rdrop_last: "rev (dropWhile P (rev s)) \<noteq> [] \<Longrightarrow> \<not> P (last (rev (dropWhile P (rev s))))"
  by (simp add: last_rev hd_dropWhile)

lemma rdrop_id: "s = [] \<or> \<not> P (last s) \<Longrightarrow> rev (dropWhile P (rev s)) = s"
  by (cases "rev s") (auto simp: last_rev hd_rev)

lemma ldrop_decomp: "\<exists>pre. s = pre @ dropWhile P s \<and> (\<forall>c\<in>set pre. P c)"
  by (metis set_takeWhileD takeWhile_dropWhile_id)

lemma ldrop_last: "dropWhile P s \<noteq> [] \<Longrightarrow> last (dropWhile P s) = last s"
  by (metis last_appendR takeWhile_dropWhile_id)

lemma ldrop_id: "s = [] \<or> \<not> P (hd s) \<Longrightarrow> dropWhile P s = s"
  by (cases s) auto

lemma Trim_decomp:
  "\<exists>pre suf. s = pre @ Trim s cs @ suf \<and> set pre \<subseteq> set cs \<and> set suf \<subseteq> set cs"
proof (cases "s = [] \<or> cs = []")
  case True
  then have "s = [] @ Trim s cs @ []" by (simp add: Trim_def)
  then show ?thesis by (metis empty_subsetI list.set(1))
next
  case False
  let ?P = "\<lambda>c. c \<in> set cs"
  let ?m = "rev (dropWhile ?P (rev s))"
  obtain suf where suf: "s = ?m @ suf" "\<forall>c\<in>set suf. ?P c"
    using rdrop_decomp [of s ?P] by blast
  obtain pre where pre: "?m = pre @ dropWhile ?P ?m" "\<forall>c\<in>set pre. ?P c"
    using ldrop_decomp [of ?m ?P] by blast
  have t: "Trim s cs = dropWhile ?P ?m"
    using False by (simp add: Trim_def trimLeftASCII_def trimRightASCII_def)
  have "s = pre @ Trim s cs @ suf"
    using suf(1) pre(1) t by (metis append.assoc)
  then show ?thesis using suf(2) pre(2) by blast
qed

lemma Trim_ends:
  assumes "cs \<noteq> []" "Trim s cs \<noteq> []"
  shows "hd (Trim s cs) \<notin> set cs \<and> last (Trim s cs) \<notin> set cs"
proof -
  let ?P = "\<lambda>c. c \<in> set cs"
  let ?m = "rev (dropWhile ?P (rev s))"
  have ne: "s \<noteq> []" using assms(2) by (cases "s = []") (simp_all add: Trim_def)
  then have t: "Trim s cs = dropWhile ?P ?m"
    using assms(1) by (simp add: Trim_def trimLeftASCII_def trimRightASCII_def)
  with assms(2) have d: "dropWhile ?P ?m \<noteq> []" by simp
  then have m: "?m \<noteq> []" by (metis dropWhile.simps(1))
  have "\<not> ?P (hd (dropWhile ?P ?m))" using d by (rule hd_dropWhile)
  moreover have "last (dropWhile ?P ?m) = last ?m" using d by (rule ldrop_last)
  moreover have "\<not> ?P (last ?m)" using m by (rule rdrop_last)
  ultimately show ?thesis using t by simp
qed

lemma Trim_id:
  assumes "s = [] \<or> (hd s \<notin> set cs \<and> last s \<notin> set cs)"
  shows "Trim s cs = s"
proof (cases "s = [] \<or> cs = []")
  case True
  then show ?thesis by (simp add: Trim_def)
next
  case False
  let ?P = "\<lambda>c. c \<in> set cs"
  have "rev (dropWhile ?P (rev s)) = s" using assms False by (intro rdrop_id) simp
  moreover have "dropWhile ?P s = s" using assms False by (intro ldrop_id) simp
  ultimately show ?thesis using False
    by (simp add: Trim_def trimLeftASCII_def trimRightASCII_def)
qed

lemma length_Trim: "length (Trim s cs) \<le> length s"
  using Trim_decomp [of s cs] by (metis le_add1 le_add2 le_trans length_append)

lemma set_Trim: "set (Trim s cs) \<subseteq> set s"
proof -
  obtain pre suf where "s = pre @ Trim s cs @ suf" using Trim_decomp [of s cs] by blast
  then have "set s = set pre \<union> set (Trim s cs) \<union> set suf" by (metis set_append Un_assoc)
  then show ?thesis by blast
qed

lemma TrimSpace_decomp:
  "\<exists>pre suf. s = pre @ TrimSpace s @ suf \<and> (\<forall>c\<in>set pre. asciiSpace c) \<and> (\<forall>c\<in>set suf. asciiSpace c)"
proof -
  let ?m = "dropWhile asciiSpace s"
  obtain pre where pre: "s = pre @ ?m" "\<forall>c\<in>set pre. asciiSpace c"
    using ldrop_decomp [of s asciiSpace] by blast
  obtain suf where suf: "?m = rev (dropWhile asciiSpace (rev ?m)) @ suf" "\<forall>c\<in>set suf. asciiSpace c"
    using rdrop_decomp [of ?m asciiSpace] by blast
  have "s = pre @ TrimSpace s @ suf"
    using pre(1) suf(1) unfolding TrimSpace_def by (metis)
  then show ?thesis using pre(2) suf(2) by blast
qed

lemma length_TrimSpace: "length (TrimSpace s) \<le> length s"
  using TrimSpace_decomp [of s] by (metis le_add1 le_add2 le_trans length_append)

lemma set_TrimSpace: "set (TrimSpace s) \<subseteq> set s"
proof -
  obtain pre suf where "s = pre @ TrimSpace s @ suf" using TrimSpace_decomp [of s] by blast
  then have "set s = set pre \<union> set (TrimSpace s) \<union> set suf" by (metis set_append Un_assoc)
  then show ?thesis by blast
qed

lemma TrimSpace_same_length: "length (TrimSpace s) = length s \<Longrightarrow> TrimSpace s = s"
proof -
  assume l: "length (TrimSpace s) = length s"
  obtain pre suf where d: "s = pre @ TrimSpace s @ suf" using TrimSpace_decomp [of s] by blast
  then have "length s = length pre + length (TrimSpace s) + length suf"
    by (metis length_append add.assoc)
  with l have "pre = []" "suf = []" by auto
  with d show ?thesis by simp
qed

lemma SplitHostPort_Nil: "SplitHostPort [] = Inl (AddrError missingPort [])"
  by (simp add: SplitHostPort_def addrErr_def)

text \<open>The two branches of the canonicalizer, with the panics excluded.\<close>

lemma canonicalHost_eq:
  "canonicalHost x = Inr (Trim (hostPart (TrimSpace (ToLower x))) ''[]'')"
proof -
  let ?h = "TrimSpace (ToLower x)"
  show ?thesis
  proof (cases "?h = []")
    case True
    then show ?thesis
      by (simp add: canonicalHost_def hostPart_def SplitHostPort_Nil Trim_def)
  next
    case False
    from SplitHostPort_cases [of ?h] show ?thesis
      using False by (auto simp: canonicalHost_def hostPart_def Let_def)
  qed
qed

lemma hostPart_fallback: "isl (SplitHostPort h) \<Longrightarrow> hostPart h = h"
  by (auto simp: hostPart_def isl_def)

lemma hostPart_shorter: "\<not> isl (SplitHostPort h) \<Longrightarrow> length (hostPart h) < length h"
  using SplitHostPort_cases [of h] by (auto simp: hostPart_def)

lemma set_hostPart: "set (hostPart h) \<subseteq> set h"
  using SplitHostPort_cases [of h] by (auto simp: hostPart_def)

lemma canonicalHost_set:
  "canonicalHost x = Inr r \<Longrightarrow> set r \<subseteq> set (ToLower x)"
  using set_Trim [of "hostPart (TrimSpace (ToLower x))" "''[]''"]
    set_hostPart [of "TrimSpace (ToLower x)"] set_TrimSpace [of "ToLower x"]
  by (auto simp: canonicalHost_eq)

text \<open>
  Claim C2. The canonicalizer maps \<open>MANGO.COM\<close> to \<open>mango.com\<close>, \<open>mango.com:8080\<close> to
  \<open>mango.com\<close>, \<open>[::1]:8080\<close> and \<open>[::1]\<close> to \<open>::1\<close>, and both the string of three spaces
  and the empty string to the empty string.
\<close>
theorem canonicalHost_examples:
  "canonicalHost ''MANGO.COM'' = Inr ''mango.com'' \<and>
   canonicalHost ''mango.com:8080'' = Inr ''mango.com'' \<and>
   canonicalHost ''[::1]:8080'' = Inr ''::1'' \<and>
   canonicalHost ''[::1]'' = Inr ''::1'' \<and>
   canonicalHost ''   '' = Inr '''' \<and>
   canonicalHost '''' = Inr ''''"
proof -
  have 1: "canonicalHost ''MANGO.COM'' = Inr ''mango.com''" by code_simp
  have 2: "canonicalHost ''mango.com:8080'' = Inr ''mango.com''" by code_simp
  have 3: "canonicalHost ''[::1]:8080'' = Inr ''::1''" by code_simp
  have 4: "canonicalHost ''[::1]'' = Inr ''::1''" by code_simp
  have 5: "canonicalHost ''   '' = Inr ''''" by code_simp
  have 6: "canonicalHost '''' = Inr ''''" by code_simp
  from 1 2 3 4 5 6 show ?thesis by blast
qed

text \<open>
  Claim C1, as stated: canonicalizing twice gives the same result as canonicalizing
  once. It fails for \<open>[a:1]\<close>: host-port parsing rejects the string (no port after the
  bracket), the fallback strips the brackets and returns \<open>a:1\<close>, and \<open>a:1\<close> is a
  host with a port, canonicalized to \<open>a\<close>.
\<close>
theorem canonicalHost_not_idempotent:
  "canonicalHostTwice ''[a:1]'' \<noteq> canonicalHost ''[a:1]''"
  by code_simp

lemma canonicalHost_ToLower_id: "canonicalHost x = Inr y \<Longrightarrow> ToLower y = y"
  using canonicalHost_set [of x y] ToLower_no_upper [of _ x]
  by (intro ToLower_id) blast

lemma canonicalHost_ends:
  assumes "canonicalHost x = Inr y"
  shows "y = [] \<or> (hd y \<notin> set ''[]'' \<and> last y \<notin> set ''[]'')"
proof -
  from assms have "y = Trim (hostPart (TrimSpace (ToLower x))) ''[]''"
    by (simp add: canonicalHost_eq)
  then show ?thesis
    using Trim_ends [of "''[]''" "hostPart (TrimSpace (ToLower x))"] by blast
qed

lemma canonicalHost_fixed_iff:
  assumes "canonicalHost x = Inr y"
  shows "canonicalHost y = Inr y \<longleftrightarrow> TrimSpace y = y \<and> isl (SplitHostPort y)"
proof
  assume fx: "canonicalHost y = Inr y"
  let ?h = "TrimSpace (ToLower y)"
  have low: "ToLower y = y" using assms by (rule canonicalHost_ToLower_id)
  from fx have y: "y = Trim (hostPart ?h) ''[]''" by (simp add: canonicalHost_eq)
  have "length y \<le> length (hostPart ?h)" using y length_Trim by metis
  moreover have "length ?h \<le> length y" using low length_TrimSpace [of y] by simp
  moreover have "\<not> isl (SplitHostPort ?h) \<Longrightarrow> length (hostPart ?h) < length ?h"
    by (rule hostPart_shorter)
  ultimately have fails: "isl (SplitHostPort ?h)" by force
  then have "hostPart ?h = ?h" by (rule hostPart_fallback)
  with y have "length y \<le> length ?h" using length_Trim by metis
  with low have "length (TrimSpace y) = length y" using length_TrimSpace [of y] by simp
  then have "TrimSpace y = y" by (rule TrimSpace_same_length)
  with fails low show "TrimSpace y = y \<and> isl (SplitHostPort y)" by simp
next
  assume a: "TrimSpace y = y \<and> isl (SplitHostPort y)"
  have low: "ToLower y = y" using assms by (rule canonicalHost_ToLower_id)
  have "hostPart y = y" using a by (simp add: hostPart_fallback)
  moreover have "Trim y ''[]'' = y" using canonicalHost_ends [OF assms] by (intro Trim_id)
  ultimately show "canonicalHost y = Inr y" using a low by (simp add: canonicalHost_eq)
qed

text \<open>
  Claim C1, amended. The canonicalizer returns a result \<open>y\<close> for every ASCII input, and
  canonicalizing twice agrees with canonicalizing once exactly when \<open>y\<close> has no leading
  or trailing white space and is not itself accepted by host-port parsing.
\<close>
theorem canonicalHost_idempotent_iff:
  assumes "isASCII x"
  shows "\<exists>y. canonicalHost x = Inr y \<and>
           (canonicalHostTwice x = canonicalHost x \<longleftrightarrow> TrimSpace y = y \<and> isl (SplitHostPort y))"
proof -
  obtain y where y: "canonicalHost x = Inr y" by (simp add: canonicalHost_eq)
  then have "canonicalHostTwice x = canonicalHost y" by (simp add: canonicalHostTwice_def bind_def)
  with y canonicalHost_fixed_iff [OF y] show ?thesis by simp
qed

theorem canonicalHost_idempotent_iff_witness:
  "isASCII ''Mango.COM:8080'' \<and> canonicalHost ''Mango.COM:8080'' = Inr ''mango.com'' \<and>
   canonicalHostTwice ''Mango.COM:8080'' = canonicalHost ''Mango.COM:8080''"
proof -
  have a: "isASCII ''Mango.COM:8080''" by code_simp
  have c: "canonicalHost ''Mango.COM:8080'' = Inr ''mango.com''" by code_simp
  have t: "TrimSpace ''mango.com'' = ''mango.com''" by code_simp
  have s: "isl (SplitHostPort ''mango.com'')" by code_simp
  from canonicalHost_idempotent_iff [OF a] c t s
  have "canonicalHostTwice ''Mango.COM:8080'' = canonicalHost ''Mango.COM:8080''" by simp
  with a c show ?thesis by simp
qed



text \<open>
  Claim C10. For every ASCII input the result of the canonicalizer is empty or neither
  begins nor ends with \<open>[\<close> or \<open>]\<close>.
\<close>
theorem canonicalHost_no_outer_bracket:
  assumes "isASCII x"
  shows "\<exists>r. canonicalHost x = Inr r \<and>
           (r = [] \<or> (hd r \<notin> {CHR ''['', CHR '']''} \<and> last r \<notin> {CHR ''['', CHR '']''}))"
proof -
  obtain r where r: "canonicalHost x = Inr r" by (simp add: canonicalHost_eq)
  from canonicalHost_ends [OF r] r show ?thesis by simp
qed

theorem canonicalHost_no_outer_bracket_witness:
  "isASCII ''[[x]]:80]'' \<and> canonicalHost ''[[x]]:80]'' = Inr ''x]]:80'' \<and>
   hd ''x]]:80'' \<notin> {CHR ''['', CHR '']''} \<and> last ''x]]:80'' \<notin> {CHR ''['', CHR '']''}"
proof -
  have a: "isASCII ''[[x]]:80]''" by code_simp
  have c: "canonicalHost ''[[x]]:80]'' = Inr ''x]]:80''" by code_simp
  from canonicalHost_no_outer_bracket [OF a] c
  have "hd ''x]]:80'' \<notin> {CHR ''['', CHR '']''} \<and> last ''x]]:80'' \<notin> {CHR ''['', CHR '']''}"
    by simp
  with a c show ?thesis by blast
qed

text \<open>
  Claim C5, as stated: after trimming, lower-casing and port removal, at most one
  surrounding pair of brackets is stripped. It fails for \<open>[[a]]\<close>: the specification's
  rule gives \<open>[a]\<close>, the code returns \<open>a\<close>.
\<close>
theorem canonicalHost_strips_more_than_one_pair:
  "canonicalHost ''[[a]]'' \<noteq> Inr (canonicalize_spec ''[[a]]'')"
  by code_simp

lemma brackets_set: "set ''[]'' = {CHR ''['', CHR '']''}"
  by simp

text \<open>
  Claim C5, amended. For every ASCII input the result is the host (after trimming,
  lower-casing and port removal) without a prefix and a suffix that consist of
  bracket characters only, and the result itself neither begins nor ends with a bracket:
  every leading and every trailing \<open>[\<close> or \<open>]\<close> is removed, paired or not.
\<close>
theorem canonicalHost_strips_all_brackets:
  assumes "isASCII x"
  shows "\<exists>r pre suf. canonicalHost x = Inr r \<and>
           hostPart (TrimSpace (ToLower x)) = pre @ r @ suf \<and>
           set pre \<subseteq> {CHR ''['', CHR '']''} \<and> set suf \<subseteq> {CHR ''['', CHR '']''} \<and>
           (r = [] \<or> (hd r \<notin> {CHR ''['', CHR '']''} \<and> last r \<notin> {CHR ''['', CHR '']''}))"
proof -
  let ?p = "hostPart (TrimSpace (ToLower x))"
  have r: "canonicalHost x = Inr (Trim ?p ''[]'')" by (rule canonicalHost_eq)
  obtain pre suf where d: "?p = pre @ Trim ?p ''[]'' @ suf"
    "set pre \<subseteq> set ''[]''" "set suf \<subseteq> set ''[]''"
    using Trim_decomp [of ?p "''[]''"] by blast
  from canonicalHost_ends [OF r] r d show ?thesis
    unfolding brackets_set by blast
qed

theorem canonicalHost_strips_all_brackets_witness:
  "isASCII ''[[A]]'' \<and> canonicalHost ''[[A]]'' = Inr ''a'' \<and>
   hostPart (TrimSpace (ToLower ''[[A]]'')) = ''[['' @ ''a'' @ '']]'' \<and>
   hd ''a'' \<notin> {CHR ''['', CHR '']''} \<and> last ''a'' \<notin> {CHR ''['', CHR '']''}"
proof -
  have a: "isASCII ''[[A]]''" by code_simp
  have c: "canonicalHost ''[[A]]'' = Inr ''a''" by code_simp
  have p: "hostPart (TrimSpace (ToLower ''[[A]]'')) = ''[['' @ ''a'' @ '']]''" by code_simp
  from canonicalHost_strips_all_brackets [OF a] c
  have "hd ''a'' \<notin> {CHR ''['', CHR '']''} \<and> last ''a'' \<notin> {CHR ''['', CHR '']''}"
    by auto
  with a c p show ?thesis by blast
qed




section \<open>Properties of the gateway and of the echo service\<close>

lemma hostRoutes_Nil: "hostRoutes [] = None"
  by (simp add: hostRoutes_def)

lemma found_response:
  "Write (JSONLine (hostResponse_json \<lparr>Host = key, Route = route\<rparr>))
     (WriteHeader StatusOK (Header_Set ''Content-Type'' ''application/json'' newResponseWriter)) =
   \<lparr>header = [(''Content-Type'', ''application/json'')], status = Some 200,
    body = [JSONLine (JObject [(''host'', JString key), (''route'', JString route)])]\<rparr>"
  by (simp add: Write_def WriteHeader_def Header_Set_def newResponseWriter_def StatusOK_def
      hostResponse_json_def)

lemma notfound_response:
  "http_NotFound newResponseWriter r =
   \<lparr>header = [(''Content-Type'', ''text/plain; charset=utf-8''),
              (''X-Content-Type-Options'', ''nosniff'')],
    status = Some 404, body = [Bytes (''404 page not found'' @ [CHR 0x0A])]\<rparr>"
  by (simp add: http_NotFound_def http_Error_def Write_def WriteHeader_def Header_Set_def
      Header_Del_def newResponseWriter_def StatusOK_def StatusNotFound_def)

text \<open>
  Claim C3. For every ASCII host value the handler of \<open>GET /\<close> computes the canonical
  key and answers with the not-found response exactly when the key is empty or has no
  entry in the route table; otherwise it answers \<open>200\<close> with the JSON object whose \<open>host\<close>
  is the canonical key and whose \<open>route\<close> is the identifier the table maps the key to.
\<close>
theorem rootHandler_outcome:
  assumes "isASCII (RequestHost r)"
  shows "\<exists>key w. canonicalHost (RequestHost r) = Inr key \<and>
           rootHandler newResponseWriter r = Inr w \<and>
           (w = http_NotFound newResponseWriter r \<longleftrightarrow> key = [] \<or> hostRoutes key = None) \<and>
           (key \<noteq> [] \<and> hostRoutes key \<noteq> None \<longrightarrow>
              (\<exists>route. hostRoutes key = Some route \<and>
                 w = \<lparr>header = [(''Content-Type'', ''application/json'')], status = Some 200,
                      body = [JSONLine (JObject [(''host'', JString key), (''route'', JString route)])]\<rparr>))"
proof -
  obtain key where key: "canonicalHost (RequestHost r) = Inr key"
    by (simp add: canonicalHost_eq)
  show ?thesis
  proof (cases "hostRoutes key")
    case None
    then have "rootHandler newResponseWriter r = Inr (http_NotFound newResponseWriter r)"
      using key by (simp add: rootHandler_def bind_def)
    with key None show ?thesis by simp
  next
    case (Some route)
    then have ne: "key \<noteq> []" using hostRoutes_Nil by auto
    have w: "rootHandler newResponseWriter r =
        Inr \<lparr>header = [(''Content-Type'', ''application/json'')], status = Some 200,
             body = [JSONLine (JObject [(''host'', JString key), (''route'', JString route)])]\<rparr>"
      using key Some by (simp add: rootHandler_def bind_def found_response)
    have "\<lparr>header = [(''Content-Type'', ''application/json'')], status = Some 200,
             body = [JSONLine (JObject [(''host'', JString key), (''route'', JString route)])]\<rparr>
          \<noteq> http_NotFound newResponseWriter r"
      by (simp add: notfound_response)
    with key Some ne w show ?thesis by simp
  qed
qed

theorem rootHandler_outcome_witness:
  "isASCII ''Mango.com:80'' \<and> canonicalHost ''Mango.com:80'' = Inr ''mango.com'' \<and>
   hostRoutes ''mango.com'' = Some ''site-mango'' \<and>
   rootHandler newResponseWriter \<lparr>Method = ''GET'', EscapedPath = ''/'', RequestHost = ''Mango.com:80''\<rparr> =
     Inr \<lparr>header = [(''Content-Type'', ''application/json'')], status = Some 200,
          body = [JSONLine (JObject [(''host'', JString ''mango.com''), (''route'', JString ''site-mango'')])]\<rparr> \<and>
   isASCII ''[::1]'' \<and> canonicalHost ''[::1]'' = Inr ''::1'' \<and> hostRoutes ''::1'' = None \<and>
   rootHandler newResponseWriter \<lparr>Method = ''GET'', EscapedPath = ''/'', RequestHost = ''[::1]''\<rparr> =
     Inr (http_NotFound newResponseWriter \<lparr>Method = ''GET'', EscapedPath = ''/'', RequestHost = ''[::1]''\<rparr>)"
proof -
  let ?r1 = "\<lparr>Method = ''GET'', EscapedPath = ''/'', RequestHost = ''Mango.com:80''\<rparr>"
  let ?r2 = "\<lparr>Method = ''GET'', EscapedPath = ''/'', RequestHost = ''[::1]''\<rparr>"
  have a1: "isASCII (RequestHost ?r1)" by code_simp
  have c1: "canonicalHost ''Mango.com:80'' = Inr ''mango.com''" by code_simp
  have h1: "hostRoutes ''mango.com'' = Some ''site-mango''" by code_simp
  have a2: "isASCII (RequestHost ?r2)" by code_simp
  have c2: "canonicalHost ''[::1]'' = Inr ''::1''" by code_simp
  have h2: "hostRoutes ''::1'' = None" by code_simp
  from rootHandler_outcome [OF a1] c1 h1
  have w1: "rootHandler newResponseWriter ?r1 =
     Inr \<lparr>header = [(''Content-Type'', ''application/json'')], status = Some 200,
          body = [JSONLine (JObject [(''host'', JString ''mango.com''), (''route'', JString ''site-mango'')])]\<rparr>"
    by auto
  from rootHandler_outcome [OF a2] c2 h2
  have w2: "rootHandler newResponseWriter ?r2 = Inr (http_NotFound newResponseWriter ?r2)"
    by auto
  from a1 c1 h1 w1 a2 c2 h2 w2 show ?thesis by simp
qed

text \<open>
  Claim C4. With the route table of the gateway, \<open>GET /\<close> with host \<open>mango.com\<close> is
  answered \<open>200\<close> with the JSON object of host \<open>mango.com\<close> and route \<open>site-mango\<close>, with
  host \<open>APPLE.COM:443\<close> it is answered \<open>200\<close> with host \<open>apple.com\<close> and route
  \<open>site-apple\<close>, and with host \<open>notmango.com\<close> it is answered \<open>404\<close>.
\<close>
theorem gateway_examples:
  "ServeHTTP (newHandler now) \<lparr>Method = ''GET'', EscapedPath = ''/'', RequestHost = ''mango.com''\<rparr> =
     Inr (Response \<lparr>header = [(''Content-Type'', ''application/json'')], status = Some 200,
       body = [JSONLine (JObject [(''host'', JString ''mango.com''), (''route'', JString ''site-mango'')])]\<rparr>) \<and>
   ServeHTTP (newHandler now) \<lparr>Method = ''GET'', EscapedPath = ''/'', RequestHost = ''APPLE.COM:443''\<rparr> =
     Inr (Response \<lparr>header = [(''Content-Type'', ''application/json'')], status = Some 200,
       body = [JSONLine (JObject [(''host'', JString ''apple.com''), (''route'', JString ''site-apple'')])]\<rparr>) \<and>
   ServeHTTP (newHandler now) \<lparr>Method = ''GET'', EscapedPath = ''/'', RequestHost = ''notmango.com''\<rparr> =
     Inr (Response \<lparr>header = [(''Content-Type'', ''text/plain; charset=utf-8''),
                               (''X-Content-Type-Options'', ''nosniff'')],
       status = Some 404, body = [Bytes (''404 page not found'' @ [CHR 0x0A])]\<rparr>)"
proof -
  have 1: "ServeHTTP (newHandler now) \<lparr>Method = ''GET'', EscapedPath = ''/'', RequestHost = ''mango.com''\<rparr> =
     Inr (Response \<lparr>header = [(''Content-Type'', ''application/json'')], status = Some 200,
       body = [JSONLine (JObject [(''host'', JString ''mango.com''), (''route'', JString ''site-mango'')])]\<rparr>)"
    by code_simp
  have 2: "ServeHTTP (newHandler now) \<lparr>Method = ''GET'', EscapedPath = ''/'', RequestHost = ''APPLE.COM:443''\<rparr> =
     Inr (Response \<lparr>header = [(''Content-Type'', ''application/json'')], status = Some 200,
       body = [JSONLine (JObject [(''host'', JString ''apple.com''), (''route'', JString ''site-apple'')])]\<rparr>)"
    by code_simp
  have 3: "ServeHTTP (newHandler now) \<lparr>Method = ''GET'', EscapedPath = ''/'', RequestHost = ''notmango.com''\<rparr> =
     Inr (Response \<lparr>header = [(''Content-Type'', ''text/plain; charset=utf-8''),
                               (''X-Content-Type-Options'', ''nosniff'')],
       status = Some 404, body = [Bytes (''404 page not found'' @ [CHR 0x0A])]\<rparr>)"
    by code_simp
  from 1 2 3 show ?thesis by blast
qed

text \<open>
  Claim C8: the echo service answers \<open>GET /\<close> with the line
  \<open>This is the {name} application\<close> as the response body. With \<open>APP=mango\<close> the
  handler appends that line to the standard output of the process and writes nothing
  to the response: the status is \<open>200\<close> and the body is empty.
\<close>
theorem echo_body_is_empty:
  "echoServe [''APP'' \<mapsto> ''mango''] []
     \<lparr>Method = ''GET'', EscapedPath = ''/'', RequestHost = ''localhost:5000''\<rparr> =
   (''This is the mango application'',
    Response \<lparr>header = [], status = Some 200, body = []\<rparr>)"
  by code_simp





















end
